theory Spec2Isabelle
  imports Main "HOL-Library.Word" "HOL-Library.Sublist"
begin

section \<open>Python values shared by the modules\<close>

text \<open>
  Python \<open>str\<close> values are modelled by their UTF-8 bytes (\<open>string\<close>): equality,
  emptiness, concatenation and an ASCII prefix test are the same on both sides.

  An exception is modelled by the first handler class of \<open>cli\<close> it is an instance of:
  \<open>FileNotFoundError\<close>, then \<open>ValueError\<close>, then \<open>OSError\<close> (any other
  \<open>OSError\<close> subclass, such as \<open>IsADirectoryError\<close>), and \<open>OtherError\<close> for every
  other \<open>Exception\<close> (an API error of the transport library, \<open>click.Abort\<close>, ...).
  The payload is the exception's argument.
\<close>

datatype exn =
    FileNotFoundError string
  | ValueError string
  | OSError string
  | OtherError string

text \<open>\<open>hasattr(obj, name)\<close>: an attribute is missing or holds a value; the value may be \<open>None\<close>.\<close>

datatype 'a attr = NoAttr | Attr 'a

section \<open>Stream fragments (\<open>ChatCompletionChunk\<close>)\<close>

record usage =
  prompt_tokens :: int
  completion_tokens :: int
  total_tokens :: int

datatype delta = ChoiceDelta (content: "string option attr")

datatype choice = Choice (delta: "delta option attr")

record chunk =
  choices :: "choice list option attr"
  usage :: "usage option attr"

text \<open>
  The iterator returned by the transport: it yields \<open>fragments\<close> in order and then either
  stops (\<open>failure = None\<close>) or raises (\<open>failure = Some e\<close>).
\<close>

record completion =
  fragments :: "chunk list"
  failure :: "exn option"

section \<open>Terminal output\<close>

text \<open>
  Each call of \<open>print\<close> or \<open>click.echo\<close> in the source is one event; the f-string
  templates (Chinese text around the interpolated values) are the constructors.
\<close>

datatype event =
    Print string                \<comment> \<open>client.py:118, \<open>print(content, end="", flush=True)\<close>\<close>
  | PrintUsage usage            \<comment> \<open>client.py:126-130, the usage summary\<close>
  | PrintStreamError exn        \<comment> \<open>client.py:135\<close>
  | PrintClientError exn        \<comment> \<open>client.py:261\<close>
  | EchoImageMissing string     \<comment> \<open>commands.py:52\<close>
  | EchoAnalysing string        \<comment> \<open>commands.py:55\<close>
  | EchoWelcome string          \<comment> \<open>commands.py:78\<close>
  | EchoFileNotFound exn        \<comment> \<open>commands.py:88\<close>
  | EchoValueError exn          \<comment> \<open>commands.py:90\<close>
  | EchoOSError exn             \<comment> \<open>commands.py:92\<close>

section \<open>\<open>AIClient.process_stream\<close> (client.py:90-136)\<close>

text \<open>The local variables of \<open>process_stream\<close> together with what has been printed.\<close>

record frame =
  full_response :: string
  usage_info :: "usage option"
  out :: "event list"

text \<open>
  The body of the \<open>for\<close> loop (client.py:108-122). The guard is the conjunction of
  \<open>hasattr(chunk, "choices")\<close>, the truthiness of \<open>chunk.choices\<close> (neither \<open>None\<close> nor
  empty), \<open>hasattr(chunk.choices[0], "delta")\<close> and \<open>hasattr(chunk.choices[0].delta,
  "content")\<close> (false when the delta is \<open>None\<close>); \<open>if content\<close> is false for \<open>None\<close>
  and for the empty string. \<open>chunk.usage\<close> is truthy when it is an object.
\<close>

definition for_body :: "bool \<Rightarrow> chunk \<Rightarrow> frame \<Rightarrow> frame" where
  "for_body print_output chunk fr =
    (let fr1 =
       (case choices chunk of
          Attr (Some (c # _)) \<Rightarrow>
            (case delta c of
               Attr (Some d) \<Rightarrow>
                 (case content d of
                    Attr (Some txt) \<Rightarrow>
                      if txt \<noteq> [] then
                        fr\<lparr>full_response := full_response fr @ txt,
                           out := (if print_output then out fr @ [Print txt] else out fr)\<rparr>
                      else fr
                  | _ \<Rightarrow> fr)
             | _ \<Rightarrow> fr)
        | _ \<Rightarrow> fr)
     in case usage chunk of
          Attr (Some u) \<Rightarrow> fr1\<lparr>usage_info := Some u\<rparr>
        | _ \<Rightarrow> fr1)"

primrec for_loop :: "bool \<Rightarrow> chunk list \<Rightarrow> frame \<Rightarrow> frame" where
  "for_loop print_output [] fr = fr"
| "for_loop print_output (chunk # rest) fr = for_loop print_output rest (for_body print_output chunk fr)"

text \<open>
  \<open>process_stream\<close> returns the text or re-raises, and prints; \<open>stdout\<close> is what was
  printed before the call.
\<close>

definition process_stream :: "completion \<Rightarrow> bool \<Rightarrow> event list \<Rightarrow> (exn + string) \<times> event list" where
  "process_stream completion print_output stdout =
    (let fr = for_loop print_output (fragments completion)
                \<lparr>full_response = [], usage_info = None, out = stdout\<rparr>
     in case failure completion of
          None \<Rightarrow>
            (Inr (full_response fr),
             (case usage_info fr of
                Some u \<Rightarrow> if print_output then out fr @ [PrintUsage u] else out fr
              | None \<Rightarrow> out fr))
        | Some e \<Rightarrow>
            (Inl e, if print_output then out fr @ [PrintStreamError e] else out fr))"

section \<open>String literals of the source\<close>

text \<open>
  The Chinese literals of the source as their UTF-8 bytes; the ASCII stretches are written
  as strings.
\<close>

text \<open>The literal at client.py:41.\<close>

definition missing_api_key_msg :: string where
  "missing_api_key_msg =
     [CHR 0xE7, CHR 0xBC, CHR 0xBA, CHR 0xE5, CHR 0xB0, CHR 0x91]
     @ '' API ''
     @ [CHR 0xE5, CHR 0xAF, CHR 0x86, CHR 0xE9, CHR 0x92, CHR 0xA5]
     @ '',''
     @ [CHR 0xE8, CHR 0xAF, CHR 0xB7, CHR 0xE8, CHR 0xAE, CHR 0xBE, CHR 0xE7,
       CHR 0xBD, CHR 0xAE, CHR 0xE7, CHR 0x8E, CHR 0xAF, CHR 0xE5, CHR 0xA2, CHR 0x83,
       CHR 0xE5, CHR 0x8F, CHR 0x98, CHR 0xE9, CHR 0x87, CHR 0x8F]
     @ '' API_KEY ''
     @ [CHR 0xE6, CHR 0x88, CHR 0x96, CHR 0xE5, CHR 0x9C, CHR 0xA8, CHR 0xE5,
       CHR 0x88, CHR 0x9D, CHR 0xE5, CHR 0xA7, CHR 0x8B, CHR 0xE5, CHR 0x8C, CHR 0x96,
       CHR 0xE6, CHR 0x97, CHR 0xB6, CHR 0xE6, CHR 0x8F, CHR 0x90, CHR 0xE4, CHR 0xBE,
       CHR 0x9B]"

text \<open>The literal at client.py:43-45.\<close>

definition missing_base_url_msg :: string where
  "missing_base_url_msg =
     [CHR 0xE7, CHR 0xBC, CHR 0xBA, CHR 0xE5, CHR 0xB0, CHR 0x91]
     @ '' API ''
     @ [CHR 0xE5, CHR 0x9F, CHR 0xBA, CHR 0xE7, CHR 0xA1, CHR 0x80]
     @ '' URL,''
     @ [CHR 0xE8, CHR 0xAF, CHR 0xB7, CHR 0xE8, CHR 0xAE, CHR 0xBE, CHR 0xE7,
       CHR 0xBD, CHR 0xAE, CHR 0xE7, CHR 0x8E, CHR 0xAF, CHR 0xE5, CHR 0xA2, CHR 0x83,
       CHR 0xE5, CHR 0x8F, CHR 0x98, CHR 0xE9, CHR 0x87, CHR 0x8F]
     @ '' BASE_URL ''
     @ [CHR 0xE6, CHR 0x88, CHR 0x96, CHR 0xE5, CHR 0x9C, CHR 0xA8, CHR 0xE5,
       CHR 0x88, CHR 0x9D, CHR 0xE5, CHR 0xA7, CHR 0x8B, CHR 0xE5, CHR 0x8C, CHR 0x96,
       CHR 0xE6, CHR 0x97, CHR 0xB6, CHR 0xE6, CHR 0x8F, CHR 0x90, CHR 0xE4, CHR 0xBE,
       CHR 0x9B]"

text \<open>The literal at client.py:47.\<close>

definition missing_model_msg :: string where
  "missing_model_msg =
     [CHR 0xE7, CHR 0xBC, CHR 0xBA, CHR 0xE5, CHR 0xB0, CHR 0x91, CHR 0xE6, CHR 0xA8,
       CHR 0xA1, CHR 0xE5, CHR 0x9E, CHR 0x8B, CHR 0xE5, CHR 0x90, CHR 0x8D, CHR 0xE7,
       CHR 0xA7, CHR 0xB0]
     @ '',''
     @ [CHR 0xE8, CHR 0xAF, CHR 0xB7, CHR 0xE8, CHR 0xAE, CHR 0xBE, CHR 0xE7,
       CHR 0xBD, CHR 0xAE, CHR 0xE7, CHR 0x8E, CHR 0xAF, CHR 0xE5, CHR 0xA2, CHR 0x83,
       CHR 0xE5, CHR 0x8F, CHR 0x98, CHR 0xE9, CHR 0x87, CHR 0x8F]
     @ '' MODEL ''
     @ [CHR 0xE6, CHR 0x88, CHR 0x96, CHR 0xE5, CHR 0x9C, CHR 0xA8, CHR 0xE5,
       CHR 0x88, CHR 0x9D, CHR 0xE5, CHR 0xA7, CHR 0x8B, CHR 0xE5, CHR 0x8C, CHR 0x96,
       CHR 0xE6, CHR 0x97, CHR 0xB6, CHR 0xE6, CHR 0x8F, CHR 0x90, CHR 0xE4, CHR 0xBE,
       CHR 0x9B]"

text \<open>The literal at commands.py:47.\<close>

definition default_image_prompt :: string where
  "default_image_prompt =
     [CHR 0xE8, CHR 0xAF, CHR 0xB7, CHR 0xE6, CHR 0x8F, CHR 0x8F, CHR 0xE8, CHR 0xBF,
       CHR 0xB0, CHR 0xE5, CHR 0xB9, CHR 0xB6, CHR 0xE5, CHR 0x88, CHR 0x86, CHR 0xE6,
       CHR 0x9E, CHR 0x90, CHR 0xE8, CHR 0xBF, CHR 0x99, CHR 0xE5, CHR 0xBC, CHR 0xA0,
       CHR 0xE5, CHR 0x9B, CHR 0xBE, CHR 0xE7, CHR 0x89, CHR 0x87, CHR 0xE4, CHR 0xB8,
       CHR 0xAD, CHR 0xE7, CHR 0x9A, CHR 0x84, CHR 0xE5, CHR 0x86, CHR 0x85, CHR 0xE5,
       CHR 0xAE, CHR 0xB9]"

text \<open>The literal at commands.py:49 and client.py:178.\<close>

definition default_image_system_prompt :: string where
  "default_image_system_prompt =
     [CHR 0xE4, CHR 0xBD, CHR 0xA0, CHR 0xE6, CHR 0x98, CHR 0xAF, CHR 0xE4, CHR 0xB8,
       CHR 0x80, CHR 0xE4, CHR 0xB8, CHR 0xAA, CHR 0xE6, CHR 0x93, CHR 0x85, CHR 0xE9,
       CHR 0x95, CHR 0xBF, CHR 0xE5, CHR 0x88, CHR 0x86, CHR 0xE6, CHR 0x9E, CHR 0x90,
       CHR 0xE5, CHR 0x9B, CHR 0xBE, CHR 0xE5, CHR 0x83, CHR 0x8F, CHR 0xE7, CHR 0x9A,
       CHR 0x84, CHR 0xE5, CHR 0x8A, CHR 0xA9, CHR 0xE6, CHR 0x89, CHR 0x8B, CHR 0xE3,
       CHR 0x80, CHR 0x82]"

text \<open>The literal at commands.py:65 and commands.py:77.\<close>

definition default_chat_system_prompt :: string where
  "default_chat_system_prompt =
     [CHR 0xE4, CHR 0xBD, CHR 0xA0, CHR 0xE6, CHR 0x98, CHR 0xAF, CHR 0xE4, CHR 0xB8,
       CHR 0x80, CHR 0xE4, CHR 0xB8, CHR 0xAA, CHR 0xE6, CHR 0x99, CHR 0xBA, CHR 0xE8,
       CHR 0x83, CHR 0xBD]
     @ ''AI''
     @ [CHR 0xE5, CHR 0x8A, CHR 0xA9, CHR 0xE6, CHR 0x89, CHR 0x8B, CHR 0xE3,
       CHR 0x80, CHR 0x82]"

text \<open>The literal at commands.py:75.\<close>

definition default_welcome_message :: string where
  "default_welcome_message =
     [CHR 0xE6, CHR 0xAC, CHR 0xA2, CHR 0xE8, CHR 0xBF, CHR 0x8E, CHR 0xE4, CHR 0xBD,
       CHR 0xBF, CHR 0xE7, CHR 0x94, CHR 0xA8]
     @ ''AI''
     @ [CHR 0xE5, CHR 0x8A, CHR 0xA9, CHR 0xE6, CHR 0x89, CHR 0x8B, CHR 0xEF,
       CHR 0xBC, CHR 0x81, CHR 0xE6, CHR 0x88, CHR 0x91, CHR 0xE5, CHR 0x8F, CHR 0xAF,
       CHR 0xE4, CHR 0xBB, CHR 0xA5, CHR 0xE5, CHR 0x9B, CHR 0x9E, CHR 0xE7, CHR 0xAD,
       CHR 0x94, CHR 0xE9, CHR 0x97, CHR 0xAE, CHR 0xE9, CHR 0xA2, CHR 0x98, CHR 0xE3,
       CHR 0x80, CHR 0x81, CHR 0xE6, CHR 0x8F, CHR 0x90, CHR 0xE4, CHR 0xBE, CHR 0x9B,
       CHR 0xE4, CHR 0xBF, CHR 0xA1, CHR 0xE6, CHR 0x81, CHR 0xAF, CHR 0xE6, CHR 0x88,
       CHR 0x96, CHR 0xE5, CHR 0x8D, CHR 0x8F, CHR 0xE5, CHR 0x8A, CHR 0xA9, CHR 0xE6,
       CHR 0x82, CHR 0xA8, CHR 0xE5, CHR 0xAE, CHR 0x8C, CHR 0xE6, CHR 0x88, CHR 0x90,
       CHR 0xE4, CHR 0xBB, CHR 0xBB, CHR 0xE5, CHR 0x8A, CHR 0xA1, CHR 0xE3, CHR 0x80,
       CHR 0x82, CHR 0xE8, CHR 0xBE, CHR 0x93, CHR 0xE5, CHR 0x85, CHR 0xA5, CHR 0x27]
     @ ''exit''
     @ [CHR 0x27, CHR 0xE6, CHR 0x88, CHR 0x96, CHR 0x27]
     @ ''quit''
     @ [CHR 0x27, CHR 0xE9, CHR 0x80, CHR 0x80, CHR 0xE5, CHR 0x87, CHR 0xBA,
       CHR 0xE5, CHR 0xAF, CHR 0xB9, CHR 0xE8, CHR 0xAF, CHR 0x9D, CHR 0xE3, CHR 0x80,
       CHR 0x82]"

section \<open>\<open>AIClient.__init__\<close> and \<open>create_client\<close> (client.py:18-52, 242-262)\<close>

text \<open>Truthiness of an \<open>Optional[str]\<close>: \<open>None\<close> and the empty string are falsy.\<close>

definition truthy :: "string option \<Rightarrow> bool" where
  "truthy v = (case v of None \<Rightarrow> False | Some s \<Rightarrow> s \<noteq> [])"

text \<open>Python's \<open>a or b\<close> on \<open>Optional[str]\<close>.\<close>

definition py_or :: "string option \<Rightarrow> string option \<Rightarrow> string option" where
  "py_or a b = (if truthy a then a else b)"

text \<open>
  client.py:33-37 (the arguments are \<open>api_key0\<close>, ...; the reassigned variables are the
  result). \<open>getenv\<close> is \<open>os.getenv\<close> after \<open>load_dotenv()\<close>. The environment is
  consulted only when at least one argument is \<open>None\<close>.
\<close>

definition resolve ::
  "(string \<rightharpoonup> string) \<Rightarrow> string option \<Rightarrow> string option \<Rightarrow> string option \<Rightarrow>
     string option \<times> string option \<times> string option" where
  "resolve getenv api_key base_url model =
    (if api_key = None \<or> base_url = None \<or> model = None then
       (py_or api_key (getenv ''API_KEY''),
        py_or base_url (getenv ''BASE_URL''),
        py_or model (getenv ''MODEL''))
     else (api_key, base_url, model))"

text \<open>
  The constructed client. \<open>self.client = OpenAI(api_key=api_key, base_url=base_url)\<close>
  (client.py:52) is a call into the transport library: \<open>openai_init k u\<close> is \<open>None\<close> when
  the library constructs its client from the key \<open>k\<close> and the URL \<open>u\<close>, and \<open>Some e\<close> when
  it raises \<open>e\<close> (it refuses, for instance, a URL with a control character).
\<close>

record client =
  api_key :: string
  base_url :: string
  model :: string

definition AIClient_init ::
  "(string \<rightharpoonup> string) \<Rightarrow> (string \<Rightarrow> string \<Rightarrow> exn option) \<Rightarrow>
     string option \<Rightarrow> string option \<Rightarrow> string option \<Rightarrow> exn + client" where
  "AIClient_init getenv openai_init api_key0 base_url0 model0 =
    (case resolve getenv api_key0 base_url0 model0 of
       (api_key1, base_url1, model1) \<Rightarrow>
         if \<not> truthy api_key1 then Inl (ValueError missing_api_key_msg)
         else if \<not> truthy base_url1 then Inl (ValueError missing_base_url_msg)
         else if \<not> truthy model1 then Inl (ValueError missing_model_msg)
         else
           (case openai_init (the api_key1) (the base_url1) of
              Some e \<Rightarrow> Inl e
            | None \<Rightarrow>
                Inr \<lparr>api_key = the api_key1, base_url = the base_url1, model = the model1\<rparr>))"

section \<open>The process environment\<close>

type_synonym byte = "8 word"

text \<open>
  What the file system holds under a path: a file with its bytes; a directory; a file
  that exists and may not be read; nothing of that name (\<open>ENOENT\<close>); or a name that
  cannot be reached at all (a component that is not a directory, a name that is too
  long, a directory that may not be searched).
\<close>

datatype fs_node =
    RegularFile "byte list"
  | Directory
  | Unreadable
  | NoEntry
  | Unreachable

datatype part = TextPart string | ImageUrlPart string

datatype body = Plain string | Parts "part list"

text \<open>A message dictionary: its \<open>role\<close> and its \<open>content\<close>.\<close>

datatype message = Message string body

text \<open>
  The keyword arguments of \<open>client.chat.completions.create\<close> (client.py:74-88).
  \<open>req_stream_options\<close> says whether \<open>stream_options = {"include_usage": True}\<close> is
  passed; \<open>req_modalities\<close> is the only extra keyword argument the repository passes.
\<close>

record request =
  req_model :: string
  req_messages :: "message list"
  req_stream :: bool
  req_stream_options :: bool
  req_modalities :: "string list option"

text \<open>
  What the program reads and writes. \<open>create n r\<close> is what the remote service answers to
  the request \<open>r\<close> when it is the call number \<open>n\<close> of the process: it raises or returns
  a fragment iterator. \<open>calls\<close> logs the requests dispatched so far. \<open>screenshot\<close> is
  what capturing and saving the screen would do: raise, or produce the image bytes.
  \<open>openai_init\<close> is the constructor of the transport library's client.
\<close>

record world =
  environ :: "string \<rightharpoonup> string"
  files :: "string \<Rightarrow> fs_node"
  screenshot :: "exn + byte list"
  openai_init :: "string \<Rightarrow> string \<Rightarrow> exn option"
  create :: "nat \<Rightarrow> request \<Rightarrow> exn + completion"
  calls :: "request list"
  stdout :: "event list"

definition echo :: "event \<Rightarrow> world \<Rightarrow> world" where
  "echo ev w = w\<lparr>stdout := stdout w @ [ev]\<rparr>"

definition create_client ::
  "string option \<Rightarrow> string option \<Rightarrow> string option \<Rightarrow> world \<Rightarrow> (exn + client) \<times> world" where
  "create_client api_key0 base_url0 model0 w =
    (case AIClient_init (environ w) (openai_init w) api_key0 base_url0 model0 of
       Inl e \<Rightarrow> (Inl e, echo (PrintClientError e) w)
     | Inr c \<Rightarrow> (Inr c, w))"

section \<open>Requests (client.py:54-88, 138-238)\<close>

text \<open>Only \<open>stream=True\<close>, the default every caller in the repository uses, is modelled.\<close>

definition chat_completion ::
  "client \<Rightarrow> message list \<Rightarrow> bool \<Rightarrow> string list option \<Rightarrow> world \<Rightarrow> (exn + completion) \<times> world" where
  "chat_completion self messages include_usage modalities w =
    (let params = \<lparr>req_model = model self, req_messages = messages, req_stream = True,
                    req_stream_options = include_usage, req_modalities = modalities\<rparr>
     in (create w (length (calls w)) params, w\<lparr>calls := calls w @ [params]\<rparr>))"

definition run_stream :: "completion \<Rightarrow> bool \<Rightarrow> world \<Rightarrow> (exn + string) \<times> world" where
  "run_stream completion print_output w =
    (case process_stream completion print_output (stdout w) of
       (r, printed) \<Rightarrow> (r, w\<lparr>stdout := printed\<rparr>))"

definition text_completion ::
  "client \<Rightarrow> string \<Rightarrow> string \<Rightarrow> bool \<Rightarrow> world \<Rightarrow> (exn + string) \<times> world" where
  "text_completion self prompt system_prompt print_output w =
    (let messages = [Message ''system'' (Plain system_prompt), Message ''user'' (Plain prompt)]
     in case chat_completion self messages True None w of
          (Inl e, w') \<Rightarrow> (Inl e, w')
        | (Inr completion, w') \<Rightarrow> run_stream completion print_output w')"

text \<open>
  \<open>open(image_path, "rb").read()\<close>. Python refuses a path with a NUL character by a
  \<open>ValueError\<close> before it asks the file system; \<open>FileNotFoundError\<close> is the error for
  \<open>ENOENT\<close>; every other failure is another subclass of \<open>OSError\<close>
  (\<open>IsADirectoryError\<close>, \<open>PermissionError\<close>, \<open>NotADirectoryError\<close>, ...).
\<close>

definition read_file :: "world \<Rightarrow> string \<Rightarrow> exn + byte list" where
  "read_file w p =
    (if CHR 0x00 \<in> set p then Inl (ValueError ''embedded null byte'')
     else case files w p of
            RegularFile bytes \<Rightarrow> Inr bytes
          | NoEntry \<Rightarrow> Inl (FileNotFoundError p)
          | _ \<Rightarrow> Inl (OSError p))"

text \<open>
  \<open>os.path.exists\<close>: false when \<open>os.stat\<close> fails, and false for a path with a NUL
  character.
\<close>

definition os_path_exists :: "world \<Rightarrow> string \<Rightarrow> bool" where
  "os_path_exists w p =
    (CHR 0x00 \<notin> set p \<and>
     (case files w p of
        RegularFile _ \<Rightarrow> True
      | Directory \<Rightarrow> True
      | Unreadable \<Rightarrow> True
      | NoEntry \<Rightarrow> False
      | Unreachable \<Rightarrow> False))"

text \<open>\<open>base64.b64encode(...).decode("utf-8")\<close>: the standard alphabet, padded with \<open>=\<close>.\<close>

definition b64_digit :: "nat \<Rightarrow> char" where
  "b64_digit i =
     ''ABCDEFGHIJKLMNOPQRSTUVWXYZabcdefghijklmnopqrstuvwxyz0123456789+/'' ! (i mod 64)"

fun b64encode :: "byte list \<Rightarrow> string" where
  "b64encode [] = []"
| "b64encode [a] =
     (let n = unat a * 65536
      in [b64_digit (n div 262144), b64_digit (n div 4096), CHR ''='', CHR ''=''])"
| "b64encode [a, b] =
     (let n = unat a * 65536 + unat b * 256
      in [b64_digit (n div 262144), b64_digit (n div 4096), b64_digit (n div 64), CHR ''=''])"
| "b64encode (a # b # c # rest) =
     (let n = unat a * 65536 + unat b * 256 + unat c
      in [b64_digit (n div 262144), b64_digit (n div 4096), b64_digit (n div 64), b64_digit n]
         @ b64encode rest)"

text \<open>client.py:197-204, the image reference.\<close>

definition image_url_of :: "world \<Rightarrow> string \<Rightarrow> exn + string" where
  "image_url_of w image_path =
    (if prefix ''data:image'' image_path then Inr image_path
     else case read_file w image_path of
            Inl e \<Rightarrow> Inl e
          | Inr bytes \<Rightarrow> Inr (''data:image/png;base64,'' @ b64encode bytes))"

definition image_messages :: "string \<Rightarrow> string \<Rightarrow> string \<Rightarrow> message list" where
  "image_messages prompt image_url system_prompt =
    [Message ''system'' (Parts [TextPart system_prompt]),
     Message ''user'' (Parts [ImageUrlPart image_url, TextPart prompt])]"

definition image_text_completion ::
  "client \<Rightarrow> string \<Rightarrow> string \<Rightarrow> string \<Rightarrow> bool \<Rightarrow> world \<Rightarrow> (exn + string) \<times> world" where
  "image_text_completion self prompt image_path system_prompt print_output w =
    (case image_url_of w image_path of
       Inl e \<Rightarrow> (Inl e, w)
     | Inr image_url \<Rightarrow>
         (case chat_completion self (image_messages prompt image_url system_prompt) True
                 (Some [''text'']) w of
            (Inl e, w') \<Rightarrow> (Inl e, w')
          | (Inr completion, w') \<Rightarrow> run_stream completion print_output w'))"

section \<open>\<open>get_screenshot\<close> (screenshot.py:14-29)\<close>

definition get_screenshot :: "world \<Rightarrow> (exn + string) \<times> world" where
  "get_screenshot w =
    (case screenshot w of
       Inl e \<Rightarrow> (Inl e, w)
     | Inr pixels \<Rightarrow>
         (Inr ''./test.png'', w\<lparr>files := (files w)(''./test.png'' := RegularFile pixels)\<rparr>))"

section \<open>The command (commands.py:21-92)\<close>

record args =
  text_opt :: "string option"
  image_flag :: bool
  path_opt :: "string option"
  prompt_opt :: "string option"
  start_opt :: "string option"

text \<open>\<open>x if x else d\<close> on an optional string.\<close>

definition or_default :: "string option \<Rightarrow> string \<Rightarrow> string" where
  "or_default v d = (case v of Some s \<Rightarrow> if s \<noteq> [] then s else d | None \<Rightarrow> d)"

text \<open>
  \<open>str.lower\<close>. On UTF-8 bytes only the ASCII capitals change; no other character
  lowers to a letter of \<open>exit\<close> or \<open>quit\<close>, which is all the result is compared with.
\<close>

definition lower_char :: "char \<Rightarrow> char" where
  "lower_char c =
    (case map_of (zip ''ABCDEFGHIJKLMNOPQRSTUVWXYZ'' ''abcdefghijklmnopqrstuvwxyz'') c of
       Some l \<Rightarrow> l
     | None \<Rightarrow> c)"

definition lower :: "string \<Rightarrow> string" where
  "lower s = map lower_char s"

definition is_exit :: "string \<Rightarrow> bool" where
  "is_exit user_input = (lower user_input \<in> set [''exit'', ''quit''])"

text \<open>
  The \<open>while True\<close> loop (commands.py:80-86) over the lines the terminal supplies.
  \<open>click.prompt("...", type=str)\<close> has no default: it reads a line, asks again while
  the line is empty, and returns the first line that is not; at the end of the input it
  raises \<open>click.Abort\<close>. The first two cases are that call, the rest is the body of the
  loop for the value it returned.
\<close>

fun interactive_loop :: "client \<Rightarrow> string \<Rightarrow> string list \<Rightarrow> world \<Rightarrow> (exn + unit) \<times> world" where
  "interactive_loop cl system_prompt [] w = (Inl (OtherError ''Abort''), w)"
| "interactive_loop cl system_prompt (user_input # rest) w =
    (if user_input = [] then interactive_loop cl system_prompt rest w
     else if is_exit user_input then (Inr (), w)
     else case text_completion cl user_input system_prompt True w of
            (Inl e, w') \<Rightarrow> (Inl e, w')
          | (Inr _, w') \<Rightarrow> interactive_loop cl system_prompt rest w')"

text \<open>The body of the \<open>try\<close> statement (commands.py:45-86).\<close>

definition image_mode :: "args \<Rightarrow> world \<Rightarrow> (exn + unit) \<times> world" where
  "image_mode a w =
    (let image_prompt = or_default (text_opt a) default_image_prompt;
         system_prompt = or_default (prompt_opt a) default_image_system_prompt
     in case (if truthy (path_opt a) then (Inr (the (path_opt a)), w) else get_screenshot w) of
          (Inl e, w1) \<Rightarrow> (Inl e, w1)
        | (Inr image_path, w1) \<Rightarrow>
            if \<not> os_path_exists w1 image_path then
              (Inr (), echo (EchoImageMissing image_path) w1)
            else
              (case create_client None None None (echo (EchoAnalysing image_path) w1) of
                 (Inl e, w2) \<Rightarrow> (Inl e, w2)
               | (Inr cl, w2) \<Rightarrow>
                   (case image_text_completion cl image_prompt image_path system_prompt True w2 of
                      (Inl e, w3) \<Rightarrow> (Inl e, w3)
                    | (Inr _, w3) \<Rightarrow> (Inr (), w3))))"

definition text_mode :: "args \<Rightarrow> world \<Rightarrow> (exn + unit) \<times> world" where
  "text_mode a w =
    (let system_prompt = or_default (prompt_opt a) default_chat_system_prompt
     in case create_client None None None w of
          (Inl e, w1) \<Rightarrow> (Inl e, w1)
        | (Inr cl, w1) \<Rightarrow>
            (case text_completion cl (the (text_opt a)) system_prompt True w1 of
               (Inl e, w2) \<Rightarrow> (Inl e, w2)
             | (Inr _, w2) \<Rightarrow> (Inr (), w2)))"

definition interactive_mode :: "args \<Rightarrow> string list \<Rightarrow> world \<Rightarrow> (exn + unit) \<times> world" where
  "interactive_mode a input_lines w =
    (let welcome_message = or_default (start_opt a) default_welcome_message;
         system_prompt = or_default (prompt_opt a) default_chat_system_prompt
     in case create_client None None None (echo (EchoWelcome welcome_message) w) of
          (Inl e, w1) \<Rightarrow> (Inl e, w1)
        | (Inr cl, w1) \<Rightarrow> interactive_loop cl system_prompt input_lines w1)"

definition cli_body :: "args \<Rightarrow> string list \<Rightarrow> world \<Rightarrow> (exn + unit) \<times> world" where
  "cli_body a input_lines w =
    (if image_flag a \<or> truthy (path_opt a) then image_mode a w
     else if truthy (text_opt a) then text_mode a w
     else interactive_mode a input_lines w)"

text \<open>
  The \<open>except\<close> clauses (commands.py:87-92), in the source's order; any other exception
  leaves \<open>cli\<close>.
\<close>

definition cli :: "args \<Rightarrow> string list \<Rightarrow> world \<Rightarrow> (exn + unit) \<times> world" where
  "cli a input_lines w =
    (case cli_body a input_lines w of
       (Inr u, w') \<Rightarrow> (Inr u, w')
     | (Inl (FileNotFoundError m), w') \<Rightarrow> (Inr (), echo (EchoFileNotFound (FileNotFoundError m)) w')
     | (Inl (ValueError m), w') \<Rightarrow> (Inr (), echo (EchoValueError (ValueError m)) w')
     | (Inl (OSError m), w') \<Rightarrow> (Inr (), echo (EchoOSError (OSError m)) w')
     | (Inl (OtherError m), w') \<Rightarrow> (Inl (OtherError m), w'))"


section \<open>Notions the properties are stated with\<close>

text \<open>
  The text delta a fragment carries: the \<open>content\<close> string of the delta of its first
  choice. A fragment without that nested shape carries none.
\<close>

definition text_delta :: "chunk \<Rightarrow> string option" where
  "text_delta chunk =
    (case choices chunk of
       Attr (Some (Choice (Attr (Some (ChoiceDelta (Attr (Some txt))))) # _)) \<Rightarrow> Some txt
     | _ \<Rightarrow> None)"

definition deltas :: "chunk list \<Rightarrow> string list" where
  "deltas cs = List.map_filter text_delta cs"

definition nonempty_deltas :: "chunk list \<Rightarrow> string list" where
  "nonempty_deltas cs = filter (\<lambda>d. d \<noteq> []) (deltas cs)"

text \<open>The usage payload a fragment carries.\<close>

definition usage_payload :: "chunk \<Rightarrow> usage option" where
  "usage_payload chunk = (case usage chunk of Attr (Some u) \<Rightarrow> Some u | _ \<Rightarrow> None)"

definition payloads :: "chunk list \<Rightarrow> usage list" where
  "payloads cs = List.map_filter usage_payload cs"

text \<open>The values passed to the emit side channel: the arguments of the \<open>Print\<close> events.\<close>

definition emitted :: "event list \<Rightarrow> string list" where
  "emitted evs = List.map_filter (\<lambda>ev. case ev of Print d \<Rightarrow> Some d | _ \<Rightarrow> None) evs"

text \<open>
  A fragment lacking the expected nested shape: no \<open>choices\<close> attribute, \<open>choices\<close>
  \<open>None\<close> or empty, a first choice with no \<open>delta\<close> attribute or a \<open>None\<close> delta, a delta
  with no \<open>content\<close> attribute, or a \<open>None\<close> or empty content.
\<close>

definition malformed :: "chunk \<Rightarrow> bool" where
  "malformed chunk =
    (case choices chunk of
       NoAttr \<Rightarrow> True
     | Attr None \<Rightarrow> True
     | Attr (Some []) \<Rightarrow> True
     | Attr (Some (c # _)) \<Rightarrow>
         (case delta c of
            NoAttr \<Rightarrow> True
          | Attr None \<Rightarrow> True
          | Attr (Some d) \<Rightarrow>
              (case content d of
                 NoAttr \<Rightarrow> True
               | Attr None \<Rightarrow> True
               | Attr (Some txt) \<Rightarrow> txt = [])))"

text \<open>A well-formed fragment with an optional text delta and an optional usage payload.\<close>

definition fragment :: "string option \<Rightarrow> usage option \<Rightarrow> chunk" where
  "fragment d u = \<lparr>choices = Attr (Some [Choice (Attr (Some (ChoiceDelta (Attr d))))]), usage = Attr u\<rparr>"


text \<open>The request \<open>image_text_completion\<close> sends for an image reference.\<close>

definition image_request :: "client \<Rightarrow> string \<Rightarrow> string \<Rightarrow> string \<Rightarrow> request" where
  "image_request cl prompt image_url system_prompt =
    \<lparr>req_model = model cl,
     req_messages =
       [Message ''system'' (Parts [TextPart system_prompt]),
        Message ''user'' (Parts [ImageUrlPart image_url, TextPart prompt])],
     req_stream = True, req_stream_options = True, req_modalities = Some [''text'']\<rparr>"





text \<open>
  The resolution of the configuration in the specification's words: each parameter on its
  own falls back to its environment variable when it is omitted or empty.
\<close>

definition spec_fallback ::
  "(string \<rightharpoonup> string) \<Rightarrow> string option \<Rightarrow> string option \<Rightarrow> string option \<Rightarrow>
     string option \<times> string option \<times> string option" where
  "spec_fallback getenv api_key0 base_url0 model0 =
     (if truthy api_key0 then api_key0 else getenv ''API_KEY'',
      if truthy base_url0 then base_url0 else getenv ''BASE_URL'',
      if truthy model0 then model0 else getenv ''MODEL'')"


section \<open>The stream aggregator\<close>

subsection \<open>One iteration, then the whole loop\<close>

lemma for_body_full_response:
  "full_response (for_body p c fr) =
     full_response fr @ (case text_delta c of Some d \<Rightarrow> d | None \<Rightarrow> [])"
  by (simp add: for_body_def text_delta_def Let_def
      split: attr.split option.split list.split choice.split delta.split)

lemma for_body_out:
  "out (for_body p c fr) =
     out fr @ (case text_delta c of Some d \<Rightarrow> if p \<and> d \<noteq> [] then [Print d] else [] | None \<Rightarrow> [])"
  by (simp add: for_body_def text_delta_def Let_def
      split: attr.split option.split list.split choice.split delta.split)

lemma for_body_usage_info:
  "usage_info (for_body p c fr) =
     (case usage_payload c of Some u \<Rightarrow> Some u | None \<Rightarrow> usage_info fr)"
  by (simp add: for_body_def usage_payload_def Let_def
      split: attr.split option.split list.split choice.split delta.split)

lemma for_loop_full_response:
  "full_response (for_loop p cs fr) = full_response fr @ concat (deltas cs)"
  by (induction cs arbitrary: fr)
     (simp_all add: deltas_def for_body_full_response split: option.split)

lemma for_loop_out:
  "out (for_loop p cs fr) = out fr @ (if p then map Print (nonempty_deltas cs) else [])"
  by (induction cs arbitrary: fr)
     (simp_all add: nonempty_deltas_def deltas_def for_body_out split: option.split)

lemma for_loop_usage_info:
  "usage_info (for_loop p cs fr) =
     (if payloads cs = [] then usage_info fr else Some (last (payloads cs)))"
  by (induction cs arbitrary: fr)
     (simp_all add: payloads_def for_body_usage_info split: option.split)

lemma concat_drop_empty: "concat (filter (\<lambda>d. d \<noteq> []) ds) = concat ds"
  by (induction ds) simp_all

lemma concat_nonempty_deltas: "concat (nonempty_deltas cs) = concat (deltas cs)"
  by (simp add: nonempty_deltas_def concat_drop_empty)

lemma emitted_Nil: "emitted [] = []"
  by (simp add: emitted_def)

lemma emitted_append: "emitted (xs @ ys) = emitted xs @ emitted ys"
  by (simp add: emitted_def List.map_filter_def)

lemma emitted_Print: "emitted (map Print ds) = ds"
  by (induction ds) (simp_all add: emitted_def)

lemma emitted_single:
  "emitted [PrintUsage u] = []" "emitted [PrintStreamError e] = []"
  by (simp_all add: emitted_def)

text \<open>The result and the output of \<open>process_stream\<close> in closed form.\<close>

lemma process_stream_done:
  "process_stream \<lparr>fragments = cs, failure = None\<rparr> p printed =
     (Inr (concat (deltas cs)),
      printed @ (if p then map Print (nonempty_deltas cs) else []) @
        (if p \<and> payloads cs \<noteq> [] then [PrintUsage (last (payloads cs))] else []))"
  by (simp add: process_stream_def Let_def for_loop_full_response for_loop_out
      for_loop_usage_info)

lemma process_stream_raised:
  "process_stream \<lparr>fragments = cs, failure = Some e\<rparr> p printed =
     (Inl e, printed @ (if p then map Print (nonempty_deltas cs) @ [PrintStreamError e] else []))"
  by (simp add: process_stream_def Let_def for_loop_out)

lemma malformed_iff:
  "malformed c = (case text_delta c of None \<Rightarrow> True | Some d \<Rightarrow> d = [])"
  by (simp add: malformed_def text_delta_def
      split: attr.split option.split list.split choice.split delta.split)

lemma malformed_text_delta:
  "malformed c \<Longrightarrow> text_delta c = None \<or> text_delta c = Some []"
  by (simp add: malformed_iff split: option.splits)

lemma malformed_skipped:
  assumes "malformed c"
  shows "concat (deltas (xs @ c # ys)) = concat (deltas (xs @ ys))"
    and "nonempty_deltas (xs @ c # ys) = nonempty_deltas (xs @ ys)"
  using malformed_text_delta [OF assms]
  by (auto simp: nonempty_deltas_def deltas_def List.map_filter_def)

subsection \<open>Properties of \<open>process_stream\<close>\<close>

text \<open>
  C1. For every finite fragment sequence, whatever usage payloads its fragments carry,
  \<open>process_stream\<close> returns the concatenation of the sequence's text deltas in arrival
  order. In particular, for fragments each built from an optional delta and an optional
  usage payload, it returns \<open>d1 + ... + dn\<close> for the deltas \<open>d1..dn\<close> that are present.
\<close>

theorem process_stream_returns_concat:
  "fst (process_stream \<lparr>fragments = cs, failure = None\<rparr> print_output printed)
     = Inr (concat (deltas cs))
   \<and> fst (process_stream \<lparr>fragments = map (\<lambda>(d, u). fragment d u) dus, failure = None\<rparr>
            print_output printed)
     = Inr (concat (List.map_filter fst dus))"
proof -
  have "text_delta (fragment d u) = d" for d u
    by (simp add: text_delta_def fragment_def split: option.split)
  then have "deltas (map (\<lambda>(d, u). fragment d u) dus) = List.map_filter fst dus"
    by (induction dus) (auto simp: deltas_def split: option.split)
  then show ?thesis
    by (simp add: process_stream_done)
qed

text \<open>
  C2. With \<open>print_output\<close> true, the values passed to the emit side channel during the call
  are exactly the non-empty text deltas, once each and in arrival order; what was printed
  before stays in front; and the returned string is the concatenation of the emitted
  values.
\<close>

theorem emit_once_per_nonempty_delta:
  "emitted (snd (process_stream \<lparr>fragments = cs, failure = None\<rparr> True [])) = nonempty_deltas cs
   \<and> emitted (snd (process_stream \<lparr>fragments = cs, failure = None\<rparr> True printed))
       = emitted printed @ nonempty_deltas cs
   \<and> fst (process_stream \<lparr>fragments = cs, failure = None\<rparr> True printed)
       = Inr (concat (emitted (snd (process_stream \<lparr>fragments = cs, failure = None\<rparr> True []))))"
  by (simp add: process_stream_done emitted_append emitted_Print emitted_single emitted_Nil
      concat_nonempty_deltas)

text \<open>
  C3, as stated, fails: the value \<open>process_stream\<close> returns is the text alone. Two
  sequences whose only usage payloads differ give the same result and the same output
  when \<open>print_output\<close> is false, so no part of the result is the last usage payload.
\<close>

theorem result_has_no_usage_field:
  "process_stream
      \<lparr>fragments = [fragment None (Some \<lparr>prompt_tokens = 3, completion_tokens = 2, total_tokens = 5\<rparr>)],
       failure = None\<rparr> False []
   = process_stream
      \<lparr>fragments = [fragment None (Some \<lparr>prompt_tokens = 7, completion_tokens = 1, total_tokens = 8\<rparr>)],
       failure = None\<rparr> False []
   \<and> \<lparr>prompt_tokens = 3, completion_tokens = 2, total_tokens = 5\<rparr>
       \<noteq> \<lparr>prompt_tokens = 7, completion_tokens = 1, total_tokens = (8::int)\<rparr>"
  by (simp add: process_stream_def for_body_def fragment_def Let_def)

text \<open>
  C3, amended. When the sequence is exhausted the local \<open>usage_info\<close> is the last usage
  payload in iteration order if some fragment carries one, and \<open>None\<close> otherwise; the
  call does not raise in either case. The payload is not returned: with \<open>print_output\<close>
  true it is reported by one usage summary after the deltas (none when no fragment
  carries a payload), and with \<open>print_output\<close> false nothing is printed.
\<close>

theorem usage_last_write_wins:
  "usage_info (for_loop p cs \<lparr>full_response = [], usage_info = None, out = printed\<rparr>)
     = (if payloads cs = [] then None else Some (last (payloads cs)))
   \<and> fst (process_stream \<lparr>fragments = cs, failure = None\<rparr> p printed) = Inr (concat (deltas cs))
   \<and> snd (process_stream \<lparr>fragments = cs, failure = None\<rparr> True printed)
       = printed @ map Print (nonempty_deltas cs) @
           (if payloads cs = [] then [] else [PrintUsage (last (payloads cs))])
   \<and> snd (process_stream \<lparr>fragments = cs, failure = None\<rparr> False printed) = printed"
  by (simp add: process_stream_done for_loop_usage_info)

text \<open>
  C4. When the iteration raises \<open>e\<close> after the fragments \<open>cs\<close>, \<open>process_stream\<close> raises
  the same \<open>e\<close>; what was printed before and every delta emitted for \<open>cs\<close> are still
  in the output (exactly what consuming \<open>cs\<close> to its end would have emitted), followed
  only by the error line when \<open>print_output\<close> is true.
\<close>

theorem failure_reraised_output_kept:
  "process_stream \<lparr>fragments = cs, failure = Some e\<rparr> print_output printed
     = (Inl e,
        printed @ (if print_output then map Print (nonempty_deltas cs) @ [PrintStreamError e] else []))
   \<and> emitted (snd (process_stream \<lparr>fragments = cs, failure = Some e\<rparr> print_output printed))
       = emitted (snd (process_stream \<lparr>fragments = cs, failure = None\<rparr> print_output printed))"
  by (simp add: process_stream_done process_stream_raised emitted_append emitted_Print
      emitted_single emitted_Nil)

text \<open>
  C5. A fragment lacking the expected nested shape does not make \<open>process_stream\<close> raise,
  and the returned value and the emitted deltas are those of the sequence without that
  fragment, wherever the fragment stands and however the iteration ends.
\<close>

theorem malformed_fragment_skipped:
  assumes "malformed c"
  shows "fst (process_stream \<lparr>fragments = xs @ c # ys, failure = f\<rparr> print_output printed)
           = fst (process_stream \<lparr>fragments = xs @ ys, failure = f\<rparr> print_output printed)
         \<and> emitted (snd (process_stream \<lparr>fragments = xs @ c # ys, failure = f\<rparr> print_output printed))
           = emitted (snd (process_stream \<lparr>fragments = xs @ ys, failure = f\<rparr> print_output printed))
         \<and> fst (process_stream \<lparr>fragments = xs @ c # ys, failure = None\<rparr> print_output printed)
           = Inr (concat (deltas (xs @ ys)))"
proof (cases f)
  case None
  then show ?thesis
    by (simp add: process_stream_done malformed_skipped [OF assms] emitted_append
        emitted_Print emitted_single emitted_Nil)
next
  case (Some e)
  then show ?thesis
    by (simp add: process_stream_done process_stream_raised malformed_skipped [OF assms]
        emitted_append emitted_Print emitted_single emitted_Nil)
qed

theorem malformed_fragment_skipped_witness:
  "malformed \<lparr>choices = Attr (Some []), usage = Attr (Some \<lparr>prompt_tokens = 3, completion_tokens = 2, total_tokens = 5\<rparr>)\<rparr>
   \<and> fst (process_stream
        \<lparr>fragments = [fragment (Some ''He'') None,
                      \<lparr>choices = Attr (Some []), usage = Attr (Some \<lparr>prompt_tokens = 3, completion_tokens = 2, total_tokens = 5\<rparr>)\<rparr>,
                      fragment (Some ''llo'') None],
         failure = None\<rparr> True [])
      = Inr ''Hello''"
proof -
  let ?c = "\<lparr>choices = Attr (Some []), usage = Attr (Some \<lparr>prompt_tokens = 3, completion_tokens = 2, total_tokens = 5\<rparr>)\<rparr>"
  have m: "malformed ?c"
    by (simp add: malformed_def)
  have d: "deltas ([fragment (Some ''He'') None] @ [fragment (Some ''llo'') None]) = [''He'', ''llo'']"
    by (simp add: deltas_def text_delta_def fragment_def)
  have "fst (process_stream
               \<lparr>fragments = [fragment (Some ''He'') None] @ ?c # [fragment (Some ''llo'') None],
                failure = None\<rparr> True [])
          = Inr (concat (deltas ([fragment (Some ''He'') None] @ [fragment (Some ''llo'') None])))"
    using malformed_fragment_skipped [OF m, of "[fragment (Some ''He'') None]"
        "[fragment (Some ''llo'') None]" None True "[]"]
    by (rule conjunct2 [THEN conjunct2])
  with m show ?thesis
    unfolding d by simp
qed

text \<open>
  C10. The value \<open>process_stream\<close> returns or raises does not depend on \<open>print_output\<close>
  (nor on what was printed before the call).
\<close>

theorem result_independent_of_print_output:
  "fst (process_stream completion True stdout1) = fst (process_stream completion False stdout2)"
  by (simp add: process_stream_def Let_def for_loop_full_response split: option.split)

section \<open>Client construction\<close>

lemma messages_name_their_field:
  "sublist ''API_KEY'' missing_api_key_msg"
  "\<not> sublist ''BASE_URL'' missing_api_key_msg"
  "\<not> sublist ''MODEL'' missing_api_key_msg"
  "sublist ''BASE_URL'' missing_base_url_msg"
  "\<not> sublist ''API_KEY'' missing_base_url_msg"
  "\<not> sublist ''MODEL'' missing_base_url_msg"
  "sublist ''MODEL'' missing_model_msg"
  "\<not> sublist ''API_KEY'' missing_model_msg"
  "\<not> sublist ''BASE_URL'' missing_model_msg"
proof -
  have absent: "\<not> sublist w msg" if "c \<in> set w" "c \<notin> set msg" for c :: char and w msg
    using that set_mono_sublist by blast
  show "sublist ''API_KEY'' missing_api_key_msg"
    by (simp add: missing_api_key_msg_def sublist_code)
  show "sublist ''BASE_URL'' missing_base_url_msg"
    by (simp add: missing_base_url_msg_def sublist_code)
  show "sublist ''MODEL'' missing_model_msg"
    by (simp add: missing_model_msg_def sublist_code)
  show "\<not> sublist ''BASE_URL'' missing_api_key_msg"
    by (rule absent [of "CHR ''B''"]) (simp_all add: missing_api_key_msg_def)
  show "\<not> sublist ''MODEL'' missing_api_key_msg"
    by (rule absent [of "CHR ''M''"]) (simp_all add: missing_api_key_msg_def)
  show "\<not> sublist ''API_KEY'' missing_base_url_msg"
    by (rule absent [of "CHR ''K''"]) (simp_all add: missing_base_url_msg_def)
  show "\<not> sublist ''MODEL'' missing_base_url_msg"
    by (rule absent [of "CHR ''M''"]) (simp_all add: missing_base_url_msg_def)
  show "\<not> sublist ''API_KEY'' missing_model_msg"
    by (rule absent [of "CHR ''K''"]) (simp_all add: missing_model_msg_def)
  show "\<not> sublist ''BASE_URL'' missing_model_msg"
    by (rule absent [of "CHR ''B''"]) (simp_all add: missing_model_msg_def)
qed

text \<open>
  When every argument is given (none is \<open>None\<close>) the environment is not consulted, not
  even for an empty argument; when one is \<open>None\<close>, every empty or missing argument is
  replaced by its environment variable, as the specification words it.
\<close>

lemma resolve_all_given:
  "resolve getenv (Some a) (Some b) (Some m) = (Some a, Some b, Some m)"
  by (simp add: resolve_def)

lemma resolve_some_omitted:
  "api_key0 = None \<or> base_url0 = None \<or> model0 = None \<Longrightarrow>
     resolve getenv api_key0 base_url0 model0 = spec_fallback getenv api_key0 base_url0 model0"
  by (simp add: resolve_def spec_fallback_def py_or_def)

lemma resolve_no_arguments:
  "resolve getenv None None None = (getenv ''API_KEY'', getenv ''BASE_URL'', getenv ''MODEL'')"
  by (simp add: resolve_def py_or_def truthy_def)

text \<open>
  C6, as stated, fails in two ways. With the environment variable \<open>API_KEY\<close> set, the
  arguments \<open>api_key=""\<close>, \<open>base_url="http://h"\<close>, \<open>model="m1"\<close> resolve to three
  non-empty strings by the fallback of the specification, and the construction raises the
  \<open>ValueError\<close> of the API key: no argument is \<open>None\<close>, so the environment is not read.
  And three non-empty resolved values do not make the construction succeed when the
  library's constructor refuses them, here a URL that ends in a newline.
\<close>

theorem construction_fails_on_nonempty_resolution:
  "spec_fallback (Map.empty(''API_KEY'' \<mapsto> ''sk'')) (Some []) (Some ''http://h'') (Some ''m1'')
     = (Some ''sk'', Some ''http://h'', Some ''m1'')
   \<and> AIClient_init (Map.empty(''API_KEY'' \<mapsto> ''sk'')) (\<lambda>k u. None)
        (Some []) (Some ''http://h'') (Some ''m1'')
     = Inl (ValueError missing_api_key_msg)
   \<and> resolve (Map.empty(''API_KEY'' \<mapsto> ''sk'')) None (Some (''http://h'' @ [CHR 0x0A])) (Some ''m1'')
     = (Some ''sk'', Some (''http://h'' @ [CHR 0x0A]), Some ''m1'')
   \<and> AIClient_init (Map.empty(''API_KEY'' \<mapsto> ''sk''))
        (\<lambda>k u. if CHR 0x0A \<in> set u then Some (OtherError ''InvalidURL'') else None)
        None (Some (''http://h'' @ [CHR 0x0A])) (Some ''m1'')
     = Inl (OtherError ''InvalidURL'')"
  by (simp add: spec_fallback_def AIClient_init_def resolve_def py_or_def truthy_def)

text \<open>
  C6, amended. Let \<open>(k, u, m)\<close> be what the code resolves the three arguments to: the
  arguments themselves when none is \<open>None\<close>, and otherwise each argument, or its
  environment variable when the argument is omitted or empty. When one of the three is
  empty or absent the construction raises the \<open>ValueError\<close> of the first such one, in
  the order \<open>api_key\<close>, \<open>base_url\<close>, \<open>model\<close>, whose message names the environment
  variable of that field and of no other. When all three are non-empty strings the
  construction succeeds with them, unless the library's constructor raises, and then it
  raises that exception. \<open>create_client\<close> returns or raises the same.
\<close>

theorem client_construction:
  assumes "resolve getenv api_key0 base_url0 model0 = (k, u, m)"
  shows "(truthy k \<and> truthy u \<and> truthy m \<longrightarrow>
            AIClient_init getenv lib api_key0 base_url0 model0
              = (case lib (the k) (the u) of
                   Some e \<Rightarrow> Inl e
                 | None \<Rightarrow> Inr \<lparr>api_key = the k, base_url = the u, model = the m\<rparr>))
       \<and> (\<not> truthy k \<longrightarrow>
            AIClient_init getenv lib api_key0 base_url0 model0 = Inl (ValueError missing_api_key_msg))
       \<and> (truthy k \<and> \<not> truthy u \<longrightarrow>
            AIClient_init getenv lib api_key0 base_url0 model0 = Inl (ValueError missing_base_url_msg))
       \<and> (truthy k \<and> truthy u \<and> \<not> truthy m \<longrightarrow>
            AIClient_init getenv lib api_key0 base_url0 model0 = Inl (ValueError missing_model_msg))
       \<and> sublist ''API_KEY'' missing_api_key_msg
       \<and> \<not> sublist ''BASE_URL'' missing_api_key_msg \<and> \<not> sublist ''MODEL'' missing_api_key_msg
       \<and> sublist ''BASE_URL'' missing_base_url_msg
       \<and> \<not> sublist ''API_KEY'' missing_base_url_msg \<and> \<not> sublist ''MODEL'' missing_base_url_msg
       \<and> sublist ''MODEL'' missing_model_msg
       \<and> \<not> sublist ''API_KEY'' missing_model_msg \<and> \<not> sublist ''BASE_URL'' missing_model_msg
       \<and> (api_key0 = None \<or> base_url0 = None \<or> model0 = None \<longrightarrow>
            (k, u, m) = spec_fallback getenv api_key0 base_url0 model0)
       \<and> (api_key0 \<noteq> None \<and> base_url0 \<noteq> None \<and> model0 \<noteq> None \<longrightarrow>
            (k, u, m) = (api_key0, base_url0, model0))
       \<and> (environ w = getenv \<and> openai_init w = lib \<longrightarrow>
            fst (create_client api_key0 base_url0 model0 w)
              = AIClient_init getenv lib api_key0 base_url0 model0)"
proof -
  have created: "fst (create_client api_key0 base_url0 model0 w)
          = AIClient_init (environ w) (openai_init w) api_key0 base_url0 model0"
    by (simp add: create_client_def split: sum.split)
  have omitted: "api_key0 = None \<or> base_url0 = None \<or> model0 = None \<longrightarrow>
            (k, u, m) = spec_fallback getenv api_key0 base_url0 model0"
    using assms resolve_some_omitted [of api_key0 base_url0 model0 getenv] by auto
  have given: "api_key0 \<noteq> None \<and> base_url0 \<noteq> None \<and> model0 \<noteq> None \<longrightarrow>
            (k, u, m) = (api_key0, base_url0, model0)"
    using assms by (auto simp: resolve_def)
  have checks: "(truthy k \<and> truthy u \<and> truthy m \<longrightarrow>
            AIClient_init getenv lib api_key0 base_url0 model0
              = (case lib (the k) (the u) of
                   Some e \<Rightarrow> Inl e
                 | None \<Rightarrow> Inr \<lparr>api_key = the k, base_url = the u, model = the m\<rparr>))
       \<and> (\<not> truthy k \<longrightarrow>
            AIClient_init getenv lib api_key0 base_url0 model0 = Inl (ValueError missing_api_key_msg))
       \<and> (truthy k \<and> \<not> truthy u \<longrightarrow>
            AIClient_init getenv lib api_key0 base_url0 model0 = Inl (ValueError missing_base_url_msg))
       \<and> (truthy k \<and> truthy u \<and> \<not> truthy m \<longrightarrow>
            AIClient_init getenv lib api_key0 base_url0 model0 = Inl (ValueError missing_model_msg))"
    using assms by (simp add: AIClient_init_def)
  from created omitted given checks messages_name_their_field show ?thesis
    by blast
qed

theorem client_construction_witness:
  "resolve (Map.empty(''API_KEY'' \<mapsto> ''sk'', ''MODEL'' \<mapsto> ''m1'')) None (Some ''http://h'') (Some [])
     = (Some ''sk'', Some ''http://h'', Some ''m1'')
   \<and> AIClient_init (Map.empty(''API_KEY'' \<mapsto> ''sk'', ''MODEL'' \<mapsto> ''m1'')) (\<lambda>k u. None)
        None (Some ''http://h'') (Some [])
     = Inr \<lparr>api_key = ''sk'', base_url = ''http://h'', model = ''m1''\<rparr>
   \<and> resolve (Map.empty(''MODEL'' \<mapsto> ''m1'')) None None None = (None, None, Some ''m1'')
   \<and> AIClient_init (Map.empty(''MODEL'' \<mapsto> ''m1'')) (\<lambda>k u. None) None None None
     = Inl (ValueError missing_api_key_msg)"
proof -
  let ?env1 = "Map.empty(''API_KEY'' \<mapsto> ''sk'', ''MODEL'' \<mapsto> ''m1'')"
  let ?env2 = "(Map.empty(''MODEL'' \<mapsto> ''m1'')) :: string \<rightharpoonup> string"
  let ?lib = "(\<lambda>k u. None) :: string \<Rightarrow> string \<Rightarrow> exn option"
  have r1: "resolve ?env1 None (Some ''http://h'') (Some [])
              = (Some ''sk'', Some ''http://h'', Some ''m1'')"
    by (simp add: resolve_def py_or_def truthy_def)
  have r2: "resolve ?env2 None None None = (None, None, Some ''m1'')"
    by (simp add: resolve_def py_or_def truthy_def)
  have "AIClient_init ?env1 ?lib None (Some ''http://h'') (Some [])
          = Inr \<lparr>api_key = ''sk'', base_url = ''http://h'', model = ''m1''\<rparr>"
    using client_construction [OF r1, of ?lib] by (simp add: truthy_def)
  moreover have "AIClient_init ?env2 ?lib None None None = Inl (ValueError missing_api_key_msg)"
    using client_construction [OF r2, of ?lib] by (simp add: truthy_def)
  ultimately show ?thesis
    using r1 r2 by simp
qed

section \<open>Requests and the image reference\<close>

lemma chat_completion_world:
  "chat_completion cl msgs iu mods w =
     (create w (length (calls w))
        \<lparr>req_model = model cl, req_messages = msgs, req_stream = True,
         req_stream_options = iu, req_modalities = mods\<rparr>,
      w\<lparr>calls := calls w @
         [\<lparr>req_model = model cl, req_messages = msgs, req_stream = True,
           req_stream_options = iu, req_modalities = mods\<rparr>]\<rparr>)"
  by (simp add: chat_completion_def Let_def)

lemma run_stream_frame:
  "calls (snd (run_stream c p w)) = calls w"
  "create (snd (run_stream c p w)) = create w"
  "files (snd (run_stream c p w)) = files w"
  "environ (snd (run_stream c p w)) = environ w"
  by (simp_all add: run_stream_def split: prod.split)


lemma image_text_completion_calls:
  assumes "image_url_of w p = Inr url"
  shows "calls (snd (image_text_completion cl prompt p sp po w))
           = calls w @ [image_request cl prompt url sp]"
  using assms
  by (simp add: image_text_completion_def chat_completion_world image_request_def
      image_messages_def run_stream_frame split: sum.split)

lemma cli_image_missing:
  assumes "path_opt a = Some p" "p \<noteq> []" "\<not> os_path_exists w p"
  shows "cli a input_lines w = (Inr (), echo (EchoImageMissing p) w)"
  using assms
  by (simp add: cli_def cli_body_def image_mode_def truthy_def Let_def)

text \<open>
  C7, as stated, fails for some paths that do not exist: \<open>image_text_completion\<close> raises
  what \<open>open\<close> raises, and that is a \<open>ValueError\<close> for a path with a NUL character and
  another \<open>OSError\<close> (not \<open>FileNotFoundError\<close>) for a name below something that is not a
  directory.
\<close>

theorem missing_path_other_errors:
  "\<not> os_path_exists
        \<lparr>environ = Map.empty, files = (\<lambda>p. NoEntry), screenshot = Inl (OtherError []),
         openai_init = (\<lambda>k u. None), create = (\<lambda>n r. Inl (OtherError [])),
         calls = [], stdout = []\<rparr> (''a'' @ [CHR 0x00])
   \<and> image_text_completion \<lparr>api_key = ''k'', base_url = ''u'', model = ''m''\<rparr> ''what''
        (''a'' @ [CHR 0x00]) ''sys'' True
        \<lparr>environ = Map.empty, files = (\<lambda>p. NoEntry), screenshot = Inl (OtherError []),
         openai_init = (\<lambda>k u. None), create = (\<lambda>n r. Inl (OtherError [])),
         calls = [], stdout = []\<rparr>
     = (Inl (ValueError ''embedded null byte''),
        \<lparr>environ = Map.empty, files = (\<lambda>p. NoEntry), screenshot = Inl (OtherError []),
         openai_init = (\<lambda>k u. None), create = (\<lambda>n r. Inl (OtherError [])),
         calls = [], stdout = []\<rparr>)
   \<and> \<not> os_path_exists
        \<lparr>environ = Map.empty,
         files = (\<lambda>p. NoEntry)(''f.txt'' := RegularFile [], ''f.txt/x'' := Unreachable),
         screenshot = Inl (OtherError []),
         openai_init = (\<lambda>k u. None), create = (\<lambda>n r. Inl (OtherError [])),
         calls = [], stdout = []\<rparr> ''f.txt/x''
   \<and> image_text_completion \<lparr>api_key = ''k'', base_url = ''u'', model = ''m''\<rparr> ''what''
        ''f.txt/x'' ''sys'' True
        \<lparr>environ = Map.empty,
         files = (\<lambda>p. NoEntry)(''f.txt'' := RegularFile [], ''f.txt/x'' := Unreachable),
         screenshot = Inl (OtherError []),
         openai_init = (\<lambda>k u. None), create = (\<lambda>n r. Inl (OtherError [])),
         calls = [], stdout = []\<rparr>
     = (Inl (OSError ''f.txt/x''),
        \<lparr>environ = Map.empty,
         files = (\<lambda>p. NoEntry)(''f.txt'' := RegularFile [], ''f.txt/x'' := Unreachable),
         screenshot = Inl (OtherError []),
         openai_init = (\<lambda>k u. None), create = (\<lambda>n r. Inl (OtherError [])),
         calls = [], stdout = []\<rparr>)"
  by (simp add: os_path_exists_def image_text_completion_def image_url_of_def read_file_def)

text \<open>
  C7, amended. An argument that starts with \<open>data:image\<close> is the image reference as it
  is. Otherwise, when the path names a readable file, the reference is
  \<open>data:image/png;base64,\<close> followed by the base64 encoding of the file's bytes. The
  request that is dispatched carries the reference as the image part of the user message.
  When the path does not exist, \<open>image_text_completion\<close> raises what \<open>open\<close> raises,
  \<open>FileNotFoundError\<close> when nothing has that name, \<open>ValueError\<close> for a path with a NUL
  character, another \<open>OSError\<close> when the name cannot be reached, and leaves the world as
  it was, so that no request has been dispatched; and \<open>cli\<close>, given a path that does not
  exist, reports it as missing and returns, also without a request.
\<close>

theorem image_reference:
  "(prefix ''data:image'' p \<longrightarrow> image_url_of w p = Inr p)
   \<and> (\<not> prefix ''data:image'' p \<and> CHR 0x00 \<notin> set p \<and> files w p = RegularFile bytes \<longrightarrow>
        image_url_of w p = Inr (''data:image/png;base64,'' @ b64encode bytes))
   \<and> (image_url_of w p = Inr url \<longrightarrow>
        calls (snd (image_text_completion cl prompt p sp po w))
          = calls w @
            [\<lparr>req_model = model cl,
              req_messages =
                [Message ''system'' (Parts [TextPart sp]),
                 Message ''user'' (Parts [ImageUrlPart url, TextPart prompt])],
              req_stream = True, req_stream_options = True,
              req_modalities = Some [''text'']\<rparr>])
   \<and> (\<not> prefix ''data:image'' p \<and> \<not> os_path_exists w p \<longrightarrow>
        image_text_completion cl prompt p sp po w
          = (Inl (if CHR 0x00 \<in> set p then ValueError ''embedded null byte''
                  else if files w p = NoEntry then FileNotFoundError p
                  else OSError p),
             w))
   \<and> (path_opt a = Some p \<and> p \<noteq> [] \<and> \<not> os_path_exists w p \<longrightarrow>
        cli a input_lines w = (Inr (), echo (EchoImageMissing p) w)
        \<and> calls (snd (cli a input_lines w)) = calls w)"
proof -
  have verbatim: "prefix ''data:image'' p \<longrightarrow> image_url_of w p = Inr p"
    by (simp add: image_url_of_def)
  have encoded: "\<not> prefix ''data:image'' p \<and> CHR 0x00 \<notin> set p \<and> files w p = RegularFile bytes \<longrightarrow>
        image_url_of w p = Inr (''data:image/png;base64,'' @ b64encode bytes)"
    by (simp add: image_url_of_def read_file_def)
  have carried: "image_url_of w p = Inr url \<longrightarrow>
        calls (snd (image_text_completion cl prompt p sp po w))
          = calls w @
            [\<lparr>req_model = model cl,
              req_messages =
                [Message ''system'' (Parts [TextPart sp]),
                 Message ''user'' (Parts [ImageUrlPart url, TextPart prompt])],
              req_stream = True, req_stream_options = True,
              req_modalities = Some [''text'']\<rparr>]"
    by (simp add: image_text_completion_calls image_request_def)
  have missing: "\<not> prefix ''data:image'' p \<and> \<not> os_path_exists w p \<longrightarrow>
        image_text_completion cl prompt p sp po w
          = (Inl (if CHR 0x00 \<in> set p then ValueError ''embedded null byte''
                  else if files w p = NoEntry then FileNotFoundError p
                  else OSError p),
             w)"
    by (cases "files w p")
       (simp_all add: image_text_completion_def image_url_of_def read_file_def
          os_path_exists_def)
  have reported: "path_opt a = Some p \<and> p \<noteq> [] \<and> \<not> os_path_exists w p \<longrightarrow>
        cli a input_lines w = (Inr (), echo (EchoImageMissing p) w)
        \<and> calls (snd (cli a input_lines w)) = calls w"
    by (simp add: cli_image_missing echo_def)
  from verbatim encoded carried missing reported show ?thesis
    by blast
qed

theorem image_reference_witness:
  "image_url_of \<lparr>environ = Map.empty, files = (\<lambda>p. NoEntry)(''a.png'' := RegularFile [0x66, 0x6F, 0x6F]),
                  screenshot = Inl (OtherError []), openai_init = (\<lambda>k u. None),
                  create = (\<lambda>n r. Inl (OtherError [])),
                  calls = [], stdout = []\<rparr> ''data:image/png;base64,XXXX''
     = Inr ''data:image/png;base64,XXXX''
   \<and> image_url_of \<lparr>environ = Map.empty, files = (\<lambda>p. NoEntry)(''a.png'' := RegularFile [0x66, 0x6F, 0x6F]),
                  screenshot = Inl (OtherError []), openai_init = (\<lambda>k u. None),
                  create = (\<lambda>n r. Inl (OtherError [])),
                  calls = [], stdout = []\<rparr> ''a.png''
     = Inr ''data:image/png;base64,Zm9v''
   \<and> calls (snd (image_text_completion \<lparr>api_key = ''k'', base_url = ''u'', model = ''m''\<rparr> ''what'' ''a.png'' ''sys'' True
        \<lparr>environ = Map.empty, files = (\<lambda>p. NoEntry)(''a.png'' := RegularFile [0x66, 0x6F, 0x6F]),
         screenshot = Inl (OtherError []), openai_init = (\<lambda>k u. None),
         create = (\<lambda>n r. Inl (OtherError [])),
         calls = [], stdout = []\<rparr>))
     = [\<lparr>req_model = ''m'',
         req_messages =
           [Message ''system'' (Parts [TextPart ''sys'']),
            Message ''user'' (Parts [ImageUrlPart ''data:image/png;base64,Zm9v'', TextPart ''what''])],
         req_stream = True, req_stream_options = True, req_modalities = Some [''text'']\<rparr>]
   \<and> image_text_completion \<lparr>api_key = ''k'', base_url = ''u'', model = ''m''\<rparr> ''what'' ''b.png'' ''sys'' True
        \<lparr>environ = Map.empty, files = (\<lambda>p. NoEntry)(''a.png'' := RegularFile [0x66, 0x6F, 0x6F]),
         screenshot = Inl (OtherError []), openai_init = (\<lambda>k u. None),
         create = (\<lambda>n r. Inl (OtherError [])),
         calls = [], stdout = []\<rparr>
     = (Inl (FileNotFoundError ''b.png''),
        \<lparr>environ = Map.empty, files = (\<lambda>p. NoEntry)(''a.png'' := RegularFile [0x66, 0x6F, 0x6F]),
         screenshot = Inl (OtherError []), openai_init = (\<lambda>k u. None),
         create = (\<lambda>n r. Inl (OtherError [])),
         calls = [], stdout = []\<rparr>)"
proof -
  let ?cl = "\<lparr>api_key = ''k'', base_url = ''u'', model = ''m''\<rparr>"
  let ?w = "\<lparr>environ = Map.empty, files = (\<lambda>p. NoEntry)(''a.png'' := RegularFile [0x66, 0x6F, 0x6F]),
             screenshot = Inl (OtherError []), openai_init = (\<lambda>k u. None),
             create = (\<lambda>n r. Inl (OtherError [])),
             calls = [], stdout = []\<rparr>"
  have enc: "b64encode [0x66, 0x6F, 0x6F] = ''Zm9v''"
    by (simp add: b64_digit_def Let_def)
  have uri: "image_url_of ?w ''data:image/png;base64,XXXX'' = Inr ''data:image/png;base64,XXXX''"
    using image_reference [of "''data:image/png;base64,XXXX''" ?w] by simp
  have onfile: "image_url_of ?w ''a.png'' = Inr ''data:image/png;base64,Zm9v''"
    using image_reference [of "''a.png''" ?w "[0x66, 0x6F, 0x6F]"] enc by simp
  have sent: "calls (snd (image_text_completion ?cl ''what'' ''a.png'' ''sys'' True ?w))
      = [\<lparr>req_model = ''m'',
         req_messages =
           [Message ''system'' (Parts [TextPart ''sys'']),
            Message ''user'' (Parts [ImageUrlPart ''data:image/png;base64,Zm9v'', TextPart ''what''])],
         req_stream = True, req_stream_options = True, req_modalities = Some [''text'']\<rparr>]"
    using image_reference [of "''a.png''" ?w _ "''data:image/png;base64,Zm9v''" ?cl "''what''"
        "''sys''" True] onfile
    by simp
  have gone: "image_text_completion ?cl ''what'' ''b.png'' ''sys'' True ?w
                = (Inl (FileNotFoundError ''b.png''), ?w)"
    using image_reference [of "''b.png''" ?w _ _ ?cl "''what''" "''sys''" True]
    by (simp add: os_path_exists_def)
  from uri onfile sent gone show ?thesis
    by simp
qed

section \<open>The interactive loop\<close>















section \<open>The boundary of the command\<close>







end
